theory Spec2Isabelle
  imports Main
begin

section \<open>Strings\<close>

text \<open>
  A Python \<open>str\<close> is modelled as a \<open>string\<close> holding its UTF-8 bytes. The program only
  concatenates strings and looks for the ASCII characters \<open>/\<close> and \<open>.\<close> in them, and an
  ASCII byte never occurs inside a multi-byte UTF-8 sequence, so nothing below depends on
  the difference between bytes and code points.
\<close>

definition digit :: "nat \<Rightarrow> char" where
  "digit n = ''0123456789'' ! n"

text \<open>\<open>str(n)\<close> for a non-negative int: its decimal digits.\<close>

function str_nat :: "nat \<Rightarrow> string" where
  "str_nat n = (if n < 10 then [digit n] else str_nat (n div 10) @ [digit (n mod 10)])"
  by pat_completeness auto
termination
  by (relation "measure (\<lambda>n. n)") auto

declare str_nat.simps [simp del]

text \<open>\<open>int(s)\<close> for a string of decimal digits.\<close>

definition decimal_value :: "string \<Rightarrow> nat" where
  "decimal_value s = foldl (\<lambda>a c. 10 * a + (of_char c - 48)) 0 s"

text \<open>\<open>str(i)\<close> for any Python int.\<close>

definition str_int :: "int \<Rightarrow> string" where
  "str_int i = (if i < 0 then ''-'' @ str_nat (nat (- i)) else str_nat (nat i))"

text \<open>\<open>s.split(sep)\<close> for a one-character separator: never the empty list.\<close>

fun str_split :: "char \<Rightarrow> string \<Rightarrow> string list" where
  "str_split sep [] = [[]]"
| "str_split sep (c # cs) =
     (if c = sep then [] # str_split sep cs
      else case str_split sep cs of
             [] \<Rightarrow> [[c]]
           | w # ws \<Rightarrow> (c # w) # ws)"

text \<open>\<open>sep.join(xs)\<close>.\<close>

fun str_join :: "string \<Rightarrow> string list \<Rightarrow> string" where
  "str_join sep [] = []"
| "str_join sep [x] = x"
| "str_join sep (x # y # ys) = x @ sep @ str_join sep (y # ys)"


section \<open>Paths (\<open>pathlib\<close> on POSIX)\<close>

text \<open>
  A \<open>pathlib.Path\<close> is its root (\<open>''''\<close>, \<open>''/''\<close> or \<open>''//''\<close>) and its components.
  Parsing drops empty components and \<open>.\<close>; exactly two leading slashes are kept as a root
  of their own, as POSIX allows.
\<close>

type_synonym ppath = "string \<times> string list"

definition splitroot :: "string \<Rightarrow> string \<times> string" where
  "splitroot part =
     (if part \<noteq> [] \<and> hd part = CHR ''/'' then
        (let stripped = dropWhile (\<lambda>c. c = CHR ''/'') part in
           (if length part - length stripped = 2 then ''//'' else ''/'', stripped))
      else ('''', part))"

definition Path :: "string \<Rightarrow> ppath" where
  "Path s =
     (let (root, rel) = splitroot s in
        (root, filter (\<lambda>x. x \<noteq> [] \<and> x \<noteq> ''.'') (str_split (CHR ''/'') rel)))"

text \<open>\<open>str(p)\<close>.\<close>

definition str_path :: "ppath \<Rightarrow> string" where
  "str_path p =
     (let s = fst p @ str_join ''/'' (snd p) in if s = [] then ''.'' else s)"

text \<open>\<open>p.name\<close>: the last component, or the empty string.\<close>

definition name :: "ppath \<Rightarrow> string" where
  "name p = (if snd p = [] then [] else last (snd p))"


text \<open>\<open>p.parent\<close>.\<close>

definition parent :: "ppath \<Rightarrow> ppath" where
  "parent p = (fst p, butlast (snd p))"


section \<open>Documents (\<open>python-docx\<close>)\<close>

text \<open>
  The body of a document is the list of its blocks, in order. A heading has its level, its
  text and its alignment; a paragraph has its text and the instructions of the
  \<open>w:fldSimple\<close> fields appended to it; a page break is a block of its own.
  Every text is taken as one the library accepts: that it refuses characters XML cannot
  hold is not modelled.
\<close>

datatype block =
    Heading nat string "nat option"
  | Paragraph string "string list"
  | PageBreak

record document =
  title :: string
  author :: string
  body :: "block list"

text \<open>\<open>Document()\<close>: the default template, with no block in its body.\<close>

definition Document :: document where
  "Document = \<lparr>title = [], author = ''python-docx'', body = []\<rparr>"

definition add_heading :: "string \<Rightarrow> nat \<Rightarrow> document \<Rightarrow> document" where
  "add_heading txt level doc = doc\<lparr>body := body doc @ [Heading level txt None]\<rparr>"

definition add_paragraph :: "string \<Rightarrow> document \<Rightarrow> document" where
  "add_paragraph txt doc = doc\<lparr>body := body doc @ [Paragraph txt []]\<rparr>"

definition add_page_break :: "document \<Rightarrow> document" where
  "add_page_break doc = doc\<lparr>body := body doc @ [PageBreak]\<rparr>"

text \<open>
  The source keeps the block it has just added (\<open>p\<close>, \<open>hdr\<close>) and changes it in place;
  that block is the last of the body.
\<close>

definition update_last :: "(block \<Rightarrow> block) \<Rightarrow> document \<Rightarrow> document" where
  "update_last f doc =
     (if body doc = [] then doc else doc\<lparr>body := butlast (body doc) @ [f (last (body doc))]\<rparr>)"

fun set_alignment :: "nat \<Rightarrow> block \<Rightarrow> block" where
  "set_alignment a (Heading level txt _) = Heading level txt (Some a)"
| "set_alignment a b = b"

fun append_fldSimple :: "string \<Rightarrow> block \<Rightarrow> block" where
  "append_fldSimple instr (Paragraph txt flds) = Paragraph txt (flds @ [instr])"
| "append_fldSimple instr b = b"

text \<open>The field code \<^verbatim>\<open>TOC \h \z \u\<close>.\<close>

definition toc_instr :: string where
  "toc_instr = ''TOC '' @ [CHR 0x5C] @ ''h '' @ [CHR 0x5C] @ ''z '' @ [CHR 0x5C] @ ''u''"

definition add_table_of_contents :: "document \<Rightarrow> document" where
  "add_table_of_contents doc =
     (let doc1 = add_paragraph [] doc in update_last (append_fldSimple toc_instr) doc1)"

section \<open>The world: files and the root logger\<close>

datatype contents = Docx document | Bytes string

datatype node = Dir | File contents

text \<open>
  The exceptions: those of the file system, with the path they are about, and any other,
  with its message. All are instances of \<open>Exception\<close>, so \<open>except Exception\<close> catches
  each of them.
\<close>

datatype exn =
    FileExistsError ppath
  | FileNotFoundError ppath
  | NotADirectoryError ppath
  | IsADirectoryError ppath
  | Failure string

text \<open>
  \<open>files\<close> maps a path to what is there; a path names one node, so links and \<open>..\<close>
  are not resolved. \<open>records\<close> are the records handed to the root logger, oldest first,
  each with its level (the time stamp of a record is left out); \<open>root_handlers\<close> says
  whether the root logger has been configured, and \<open>root_level\<close> is its threshold.
\<close>

record world =
  files :: "ppath \<Rightarrow> node option"
  root_handlers :: bool
  root_level :: nat
  records :: "(nat \<times> string) list"

text \<open>
  What the program calls and does not implement: the rasterizer, the OCR engine, the
  rendering of an exception as text (\<open>str(e)\<close>), and a refusal of the operating system to
  write at a path (permissions, a read-only or full device).
\<close>

record 'img env =
  convert_from_path :: "(ppath \<Rightarrow> node option) \<Rightarrow> string \<Rightarrow> int \<Rightarrow> exn + 'img list"
  image_to_string :: "'img \<Rightarrow> string \<Rightarrow> exn + string"
  str_exn :: "exn \<Rightarrow> string"
  os_fault :: "ppath \<Rightarrow> exn option"

definition DEBUG :: nat where "DEBUG = 10"
definition INFO :: nat where "INFO = 20"
definition ERROR :: nat where "ERROR = 40"

text \<open>\<open>logging.basicConfig(level=...)\<close> does nothing once the root logger has a handler.\<close>

definition basicConfig :: "nat \<Rightarrow> world \<Rightarrow> world" where
  "basicConfig level w =
     (if root_handlers w then w else w\<lparr>root_handlers := True, root_level := level\<rparr>)"

text \<open>
  \<open>logging.info(msg)\<close> and \<open>logging.error(msg)\<close>: the module-level functions give the root
  logger a handler when it has none (leaving its level alone), then hand it the record.
\<close>

definition logging_info :: "string \<Rightarrow> world \<Rightarrow> world" where
  "logging_info msg w = w\<lparr>root_handlers := True, records := records w @ [(INFO, msg)]\<rparr>"

definition logging_error :: "string \<Rightarrow> world \<Rightarrow> world" where
  "logging_error msg w = w\<lparr>root_handlers := True, records := records w @ [(ERROR, msg)]\<rparr>"

text \<open>The records the handler of the root logger prints: those that reach its threshold.\<close>

definition emitted :: "world \<Rightarrow> (nat \<times> string) list" where
  "emitted w = filter (\<lambda>r. root_level w \<le> fst r) (records w)"

text \<open>
  What is at a path. The path with no component is the current directory (or the root),
  which is always there.
\<close>

definition stat :: "(ppath \<Rightarrow> node option) \<Rightarrow> ppath \<Rightarrow> node option" where
  "stat fs p = (if snd p = [] then Some Dir else fs p)"

definition path_exists :: "(ppath \<Rightarrow> node option) \<Rightarrow> ppath \<Rightarrow> bool" where
  "path_exists fs p = (stat fs p \<noteq> None)"

definition is_dir :: "(ppath \<Rightarrow> node option) \<Rightarrow> ppath \<Rightarrow> bool" where
  "is_dir fs p = (stat fs p = Some Dir)"






text \<open>
  The exception \<open>open(p, 'wb')\<close> raises, if any: the path is a directory, its parent is
  missing or is a file, or the operating system refuses.
\<close>

definition open_wb :: "'img env \<Rightarrow> (ppath \<Rightarrow> node option) \<Rightarrow> ppath \<Rightarrow> exn option" where
  "open_wb env fs p =
     (if is_dir fs p then Some (IsADirectoryError p)
      else case stat fs (parent p) of
             None \<Rightarrow> Some (FileNotFoundError p)
           | Some (File c) \<Rightarrow> Some (NotADirectoryError p)
           | Some Dir \<Rightarrow> os_fault env p)"

text \<open>
  \<open>doc.save(output_path)\<close>: opens the file for writing and writes the document over
  whatever was there. A failure leaves the files as they were.
\<close>

definition doc_save ::
  "'img env \<Rightarrow> document \<Rightarrow> string \<Rightarrow> (ppath \<Rightarrow> node option) \<Rightarrow> exn + (ppath \<Rightarrow> node option)" where
  "doc_save env doc output_path fs =
     (let p = Path output_path in
        case open_wb env fs p of
          Some e \<Rightarrow> Inl e
        | None \<Rightarrow> Inr (fs(p \<mapsto> File (Docx doc))))"

section \<open>The program\<close>

text \<open>The messages of the program, as UTF-8.\<close>

definition msg_no_existe :: "ppath \<Rightarrow> string" where
  "msg_no_existe pdf_file = ''El PDF no existe: '' @ str_path pdf_file"

definition msg_convirtiendo :: "string \<Rightarrow> int \<Rightarrow> string" where
  "msg_convirtiendo nm dpi =
     [CHR 0xF0, CHR 0x9F, CHR 0x93, CHR 0x84] @ '' Convirtiendo '' @ nm @ '' a im''
     @ [CHR 0xC3, CHR 0xA1] @ ''genes (DPI='' @ str_int dpi @ '')...''"

definition msg_procesando :: "nat \<Rightarrow> nat \<Rightarrow> string" where
  "msg_procesando i npages =
     [CHR 0xF0, CHR 0x9F, CHR 0x94, CHR 0x8D] @ '' Procesando p'' @ [CHR 0xC3, CHR 0xA1]
     @ ''gina '' @ str_nat i @ ''/'' @ str_nat npages @ ''...''"

definition msg_guardado :: "string \<Rightarrow> string" where
  "msg_guardado output_path = [CHR 0xE2, CHR 0x9C, CHR 0x85] @ '' Guardado: '' @ output_path"

definition msg_error_guardar :: "string \<Rightarrow> string \<Rightarrow> string" where
  "msg_error_guardar output_path cause =
     [CHR 0xE2, CHR 0x9D, CHR 0x8C] @ '' Error al guardar '' @ output_path @ '': '' @ cause"


text \<open>
  The title of the document, the text of the first heading and the label of the heading
  of page \<open>i\<close>, in the Spanish of the source.
\<close>

definition titulo :: "string \<Rightarrow> string" where
  "titulo nm = ''Conversi'' @ [CHR 0xC3, CHR 0xB3] @ ''n de '' @ nm"

definition tabla_de_contenidos :: string where
  "tabla_de_contenidos = ''Tabla de Contenidos''"

definition pagina :: "nat \<Rightarrow> string" where
  "pagina i = ''P'' @ [CHR 0xC3, CHR 0xA1] @ ''gina '' @ str_nat i"

text \<open>
  The loop \<open>for i, page in enumerate(pages, start=1)\<close> of \<open>pdf_to_word_with_toc\<close>:
  \<open>npages\<close> is \<open>len(pages)\<close>, \<open>i\<close> the number of the page at the head of the list.
  An exception of the OCR engine leaves the loop and the function.
\<close>

fun for_pages ::
  "'img env \<Rightarrow> string \<Rightarrow> nat \<Rightarrow> nat \<Rightarrow> 'img list \<Rightarrow> document \<Rightarrow> world
     \<Rightarrow> (exn + document) \<times> world" where
  "for_pages env lang npages i [] doc w = (Inr doc, w)"
| "for_pages env lang npages i (page # rest) doc w =
     (let w1 = logging_info (msg_procesando i npages) w in
        case image_to_string env page lang of
          Inl e \<Rightarrow> (Inl e, w1)
        | Inr txt \<Rightarrow>
            (let doc1 = (if 1 < i then add_page_break doc else doc);
                 doc2 = add_heading (pagina i) 1 doc1;
                 doc3 = update_last (set_alignment 1) doc2;
                 doc4 = add_paragraph txt doc3
             in for_pages env lang npages (Suc i) rest doc4 w1))"

text \<open>
  \<open>pdf_to_word_with_toc\<close>. The result is \<open>Inr ()\<close> when the function returns (it returns
  \<open>None\<close>) and \<open>Inl e\<close> when it raises \<open>e\<close>, with the world it leaves.
\<close>

definition pdf_to_word_with_toc ::
  "'img env \<Rightarrow> string \<Rightarrow> string \<Rightarrow> int \<Rightarrow> string \<Rightarrow> bool \<Rightarrow> world \<Rightarrow> (exn + unit) \<times> world" where
  "pdf_to_word_with_toc env pdf_path output_path dpi lang verbose w =
     (let level = (if verbose then DEBUG else INFO);
          w0 = basicConfig level w;
          pdf_file = Path pdf_path
      in if \<not> path_exists (files w0) pdf_file then
           (Inr (), logging_error (msg_no_existe pdf_file) w0)
         else
           (let w1 = logging_info (msg_convirtiendo (name pdf_file) dpi) w0 in
              case convert_from_path env (files w1) (str_path pdf_file) dpi of
                Inl e \<Rightarrow> (Inl e, w1)
              | Inr pages \<Rightarrow>
                  (let doc0 = Document\<lparr>title := titulo (name pdf_file),
                                       author := ''pdf_to_word_with_toc''\<rparr>;
                       doc1 = add_heading tabla_de_contenidos 1 doc0;
                       doc2 = add_table_of_contents doc1
                   in case for_pages env lang (length pages) 1 pages doc2 w1 of
                        (Inl e, w2) \<Rightarrow> (Inl e, w2)
                      | (Inr doc, w2) \<Rightarrow>
                          (case doc_save env doc output_path (files w2) of
                             Inr fs' \<Rightarrow>
                               (Inr (), logging_info (msg_guardado output_path) (w2\<lparr>files := fs'\<rparr>))
                           | Inl e \<Rightarrow>
                               (Inr (),
                                logging_error (msg_error_guardar output_path (str_exn env e)) w2)))))"




section \<open>Reading a result\<close>






text \<open>The first exception in a list of results, if there is one.\<close>

fun first_failure :: "(exn + 'a) list \<Rightarrow> exn option" where
  "first_failure [] = None"
| "first_failure (Inl e # rs) = Some e"
| "first_failure (Inr x # rs) = first_failure rs"




text \<open>
  The second file tree is the first with directories added where nothing was: every
  path holds what it held, or held nothing and now holds a directory.
\<close>

definition only_new_dirs :: "(ppath \<Rightarrow> node option) \<Rightarrow> (ppath \<Rightarrow> node option) \<Rightarrow> bool" where
  "only_new_dirs fs fs' = (\<forall>q. fs' q = fs q \<or> (fs q = None \<and> fs' q = Some Dir))"


section \<open>A synthetic environment\<close>




section \<open>Properties\<close>

subsection \<open>Decimal numbers\<close>

lemma digit_cases:
  "(d::nat) < 10 \<Longrightarrow>
   d = 0 \<or> d = 1 \<or> d = 2 \<or> d = 3 \<or> d = 4 \<or> d = 5 \<or> d = 6 \<or> d = 7 \<or> d = 8 \<or> d = 9"
  by arith

lemma of_char_digit: "d < 10 \<Longrightarrow> (of_char (digit d) :: nat) = 48 + d"
  using digit_cases [of d] by (auto simp: digit_def)

lemma decimal_value_snoc:
  "decimal_value (s @ [c]) = 10 * decimal_value s + (of_char c - 48)"
  by (simp add: decimal_value_def)

lemma decimal_value_str_nat: "decimal_value (str_nat n) = n"
proof (induction n rule: str_nat.induct)
  case (1 n)
  show ?case
  proof (cases "n < 10")
    case True
    then show ?thesis
      by (simp add: str_nat.simps [of n] decimal_value_def of_char_digit)
  next
    case False
    with "1.IH" have "decimal_value (str_nat (n div 10)) = n div 10"
      by simp
    with False show ?thesis
      by (simp add: str_nat.simps [of n] decimal_value_snoc of_char_digit)
  qed
qed

lemma pagina_inj: "pagina i = pagina j \<Longrightarrow> i = j"
proof -
  assume "pagina i = pagina j"
  then have "str_nat i = str_nat j"
    by (simp add: pagina_def)
  then have "decimal_value (str_nat i) = decimal_value (str_nat j)"
    by simp
  then show "i = j"
    by (simp add: decimal_value_str_nat)
qed

subsection \<open>Paths\<close>

lemma str_split_not_Nil [simp]: "str_split sep s \<noteq> []"
  by (induction s) (auto split: list.splits)















lemma str_join_Cons:
  "ps \<noteq> [] \<Longrightarrow> str_join sep (p # ps) = p @ sep @ str_join sep ps"
  by (cases ps) auto







subsection \<open>Files and records\<close>

lemma logging_info_files [simp]: "files (logging_info m w) = files w"
  by (simp add: logging_info_def)

lemma logging_error_files [simp]: "files (logging_error m w) = files w"
  by (simp add: logging_error_def)

lemma basicConfig_files [simp]: "files (basicConfig level w) = files w"
  by (simp add: basicConfig_def)

lemma basicConfig_configured: "root_handlers w \<Longrightarrow> basicConfig level w = w"
  by (simp add: basicConfig_def)

lemma logging_info_level:
  "logging_info m (w\<lparr>root_level := l\<rparr>) = (logging_info m w)\<lparr>root_level := l\<rparr>"
  by (simp add: logging_info_def)

lemma logging_error_level:
  "logging_error m (w\<lparr>root_level := l\<rparr>) = (logging_error m w)\<lparr>root_level := l\<rparr>"
  by (simp add: logging_error_def)



subsection \<open>Making directories\<close>

lemma only_new_dirs_refl [simp]: "only_new_dirs fs fs"
  by (simp add: only_new_dirs_def)











subsection \<open>The table of contents\<close>

lemma toc_body:
  "body (add_table_of_contents (add_heading txt l doc)) =
     body doc @ [Heading l txt None, Paragraph [] [toc_instr]]"
  by (simp add: add_table_of_contents_def add_heading_def add_paragraph_def update_last_def
      butlast_append)


subsection \<open>The loop over the pages\<close>





lemma for_pages_level:
  "for_pages env lang n i pages doc (w\<lparr>root_level := l\<rparr>) =
     (fst (for_pages env lang n i pages doc w),
      (snd (for_pages env lang n i pages doc w))\<lparr>root_level := l\<rparr>)"
  by (induction pages arbitrary: i doc w)
     (auto simp: Let_def logging_info_level split: sum.splits)

lemma for_pages_root_level [simp]:
  "root_level (snd (for_pages env lang n i pages doc w)) = root_level w"
  by (induction pages arbitrary: i doc w)
     (auto simp: Let_def logging_info_def split: sum.splits)

lemma for_pages_records:
  "\<exists>new. records (snd (for_pages env lang n i pages doc w)) = records w @ new \<and>
         (\<forall>r \<in> set new. fst r = INFO)"
proof (induction pages arbitrary: i doc w)
  case Nil
  show ?case by simp
next
  case (Cons page rest)
  show ?case
  proof (cases "image_to_string env page lang")
    case (Inl e)
    then show ?thesis
      by (simp add: logging_info_def)
  next
    case (Inr t)
    let ?w1 = "logging_info (msg_procesando i n) w"
    let ?doc = "add_paragraph t (update_last (set_alignment 1)
                  (add_heading (pagina i) 1 (if 1 < i then add_page_break doc else doc)))"
    from Cons.IH [of "Suc i" ?doc ?w1] obtain new
      where "records (snd (for_pages env lang n (Suc i) rest ?doc ?w1)) = records ?w1 @ new"
        and "\<forall>r \<in> set new. fst r = INFO"
      by blast
    then have "records (snd (for_pages env lang n i (page # rest) doc w)) =
                 records w @ ((INFO, msg_procesando i n) # new) \<and>
               (\<forall>r \<in> set ((INFO, msg_procesando i n) # new). fst r = INFO)"
      by (simp add: Inr Let_def logging_info_def)
    then show ?thesis
      by blast
  qed
qed

lemma first_failure_Inr [simp]: "first_failure (map Inr xs) = None"
  by (induction xs) auto


subsection \<open>The paths through the conversion\<close>

lemma convert_missing:
  "\<not> path_exists (files w) (Path pdf_path) \<Longrightarrow>
   pdf_to_word_with_toc env pdf_path output_path dpi lang verbose w =
     (Inr (), logging_error (msg_no_existe (Path pdf_path))
                (basicConfig (if verbose then DEBUG else INFO) w))"
  by (simp add: pdf_to_word_with_toc_def Let_def)

lemma convert_raster_fails:
  "path_exists (files w) (Path pdf_path) \<Longrightarrow>
   convert_from_path env (files w) (str_path (Path pdf_path)) dpi = Inl e \<Longrightarrow>
   pdf_to_word_with_toc env pdf_path output_path dpi lang verbose w =
     (Inl e, logging_info (msg_convirtiendo (name (Path pdf_path)) dpi)
               (basicConfig (if verbose then DEBUG else INFO) w))"
  by (simp add: pdf_to_word_with_toc_def Let_def)

lemma convert_ocr_fails:
  assumes "path_exists (files w) (Path pdf_path)"
    and "convert_from_path env (files w) (str_path (Path pdf_path)) dpi = Inr pages"
    and "for_pages env lang (length pages) 1 pages
           (add_table_of_contents (add_heading tabla_de_contenidos 1
              (Document\<lparr>title := titulo (name (Path pdf_path)),
                         author := ''pdf_to_word_with_toc''\<rparr>)))
           (logging_info (msg_convirtiendo (name (Path pdf_path)) dpi)
              (basicConfig (if verbose then DEBUG else INFO) w)) = (Inl e, w2)"
  shows "pdf_to_word_with_toc env pdf_path output_path dpi lang verbose w = (Inl e, w2)"
  using assms by (simp add: pdf_to_word_with_toc_def Let_def)

lemma convert_save_ok:
  assumes "path_exists (files w) (Path pdf_path)"
    and "convert_from_path env (files w) (str_path (Path pdf_path)) dpi = Inr pages"
    and "for_pages env lang (length pages) 1 pages
           (add_table_of_contents (add_heading tabla_de_contenidos 1
              (Document\<lparr>title := titulo (name (Path pdf_path)),
                         author := ''pdf_to_word_with_toc''\<rparr>)))
           (logging_info (msg_convirtiendo (name (Path pdf_path)) dpi)
              (basicConfig (if verbose then DEBUG else INFO) w)) = (Inr doc, w2)"
    and "doc_save env doc output_path (files w2) = Inr fs'"
  shows "pdf_to_word_with_toc env pdf_path output_path dpi lang verbose w =
           (Inr (), logging_info (msg_guardado output_path) (w2\<lparr>files := fs'\<rparr>))"
  using assms by (simp add: pdf_to_word_with_toc_def Let_def)

lemma convert_save_fails:
  assumes "path_exists (files w) (Path pdf_path)"
    and "convert_from_path env (files w) (str_path (Path pdf_path)) dpi = Inr pages"
    and "for_pages env lang (length pages) 1 pages
           (add_table_of_contents (add_heading tabla_de_contenidos 1
              (Document\<lparr>title := titulo (name (Path pdf_path)),
                         author := ''pdf_to_word_with_toc''\<rparr>)))
           (logging_info (msg_convirtiendo (name (Path pdf_path)) dpi)
              (basicConfig (if verbose then DEBUG else INFO) w)) = (Inr doc, w2)"
    and "doc_save env doc output_path (files w2) = Inl e"
  shows "pdf_to_word_with_toc env pdf_path output_path dpi lang verbose w =
           (Inr (), logging_error (msg_error_guardar output_path (str_exn env e)) w2)"
  using assms by (simp add: pdf_to_word_with_toc_def Let_def)





lemma convert_level:
  assumes h: "root_handlers w"
  shows "pdf_to_word_with_toc env pdf_path output_path dpi lang verbose (w\<lparr>root_level := l\<rparr>) =
     (fst (pdf_to_word_with_toc env pdf_path output_path dpi lang verbose w),
      (snd (pdf_to_word_with_toc env pdf_path output_path dpi lang verbose w))
        \<lparr>root_level := l\<rparr>)"
proof -
  let ?wl = "w\<lparr>root_level := l\<rparr>"
  let ?lv = "if verbose then DEBUG else INFO"
  let ?m = "msg_convirtiendo (name (Path pdf_path)) dpi"
  let ?doc = "add_table_of_contents (add_heading tabla_de_contenidos 1
              (Document\<lparr>title := titulo (name (Path pdf_path)),
                         author := ''pdf_to_word_with_toc''\<rparr>))"
  have b: "basicConfig ?lv w = w" and bl: "basicConfig ?lv ?wl = ?wl"
    using h by (simp_all add: basicConfig_def)
  show ?thesis
  proof (cases "path_exists (files w) (Path pdf_path)")
    case False
    then have exl: "\<not> path_exists (files ?wl) (Path pdf_path)" by simp
    show ?thesis
      unfolding convert_missing [OF exl] convert_missing [OF False] b bl
      by (simp add: logging_error_level)
  next
    case ex: True
    then have exl: "path_exists (files ?wl) (Path pdf_path)" by simp
    show ?thesis
    proof (cases "convert_from_path env (files w) (str_path (Path pdf_path)) dpi")
      case (Inl e)
      then have rasl: "convert_from_path env (files ?wl) (str_path (Path pdf_path)) dpi = Inl e"
        by simp
      show ?thesis
        unfolding convert_raster_fails [OF exl rasl] convert_raster_fails [OF ex Inl] b bl
        by (simp add: logging_info_level)
    next
      case (Inr pages)
      then have rasl: "convert_from_path env (files ?wl) (str_path (Path pdf_path)) dpi = Inr pages"
        by simp
      obtain r w2 where run:
        "for_pages env lang (length pages) 1 pages ?doc (logging_info ?m w) = (r, w2)"
        by (cases "for_pages env lang (length pages) 1 pages ?doc (logging_info ?m w)")
      have runl: "for_pages env lang (length pages) 1 pages ?doc (logging_info ?m ?wl) =
                    (r, w2\<lparr>root_level := l\<rparr>)"
        by (simp only: logging_info_level for_pages_level run fst_conv snd_conv)
      have run': "for_pages env lang (length pages) 1 pages ?doc
                    (logging_info ?m (basicConfig ?lv w)) = (r, w2)"
        and runl': "for_pages env lang (length pages) 1 pages ?doc
                    (logging_info ?m (basicConfig ?lv ?wl)) = (r, w2\<lparr>root_level := l\<rparr>)"
        by (simp_all only: b bl run runl)
      show ?thesis
      proof (cases r)
        case (Inl e)
        show ?thesis
          unfolding convert_ocr_fails [OF exl rasl runl' [unfolded Inl]]
            convert_ocr_fails [OF ex Inr run' [unfolded Inl]]
          by simp
      next
        case doc: (Inr doc)
        show ?thesis
        proof (cases "doc_save env doc output_path (files w2)")
          case (Inl e)
          then have savl: "doc_save env doc output_path (files (w2\<lparr>root_level := l\<rparr>)) = Inl e"
            by simp
          show ?thesis
            unfolding convert_save_fails [OF exl rasl runl' [unfolded doc] savl]
              convert_save_fails [OF ex Inr run' [unfolded doc] Inl]
            by (simp add: logging_error_level)
        next
          case ok: (Inr fs')
          then have savl: "doc_save env doc output_path (files (w2\<lparr>root_level := l\<rparr>)) = Inr fs'"
            by simp
          show ?thesis
            unfolding convert_save_ok [OF exl rasl runl' [unfolded doc] savl]
              convert_save_ok [OF ex Inr run' [unfolded doc] ok]
            by (simp add: logging_info_def)
        qed
      qed
    qed
  qed
qed

lemma convert_configured:
  "root_handlers w \<Longrightarrow>
   pdf_to_word_with_toc env pdf_path output_path dpi lang True w =
   pdf_to_word_with_toc env pdf_path output_path dpi lang False w"
  by (simp add: pdf_to_word_with_toc_def basicConfig_def)

lemma convert_idem:
  "pdf_to_word_with_toc env pdf_path output_path dpi lang verbose w =
   pdf_to_word_with_toc env pdf_path output_path dpi lang verbose
     (basicConfig (if verbose then DEBUG else INFO) w)"
  by (simp add: pdf_to_word_with_toc_def basicConfig_def)

lemma for_pages_result:
  assumes "for_pages env lang n i pages doc w = (r, w2)"
  shows "root_level w2 = root_level w"
    and "\<exists>new. records w2 = records w @ new \<and> (\<forall>x \<in> set new. fst x = INFO)"
  using for_pages_root_level [of env lang n i pages doc w]
    for_pages_records [of env lang n i pages doc w] assms
  by simp_all

lemma convert_root_level:
  "root_level (snd (pdf_to_word_with_toc env pdf_path output_path dpi lang verbose w)) =
     root_level (basicConfig (if verbose then DEBUG else INFO) w)"
  by (auto simp: pdf_to_word_with_toc_def Let_def logging_info_def logging_error_def
      split: sum.splits prod.splits dest: for_pages_result(1))

lemma convert_records:
  "\<exists>new. records (snd (pdf_to_word_with_toc env pdf_path output_path dpi lang verbose w)) =
           records w @ new \<and>
         (\<forall>x \<in> set new. fst x = INFO \<or> fst x = ERROR)"
proof -
  have b: "records (basicConfig l w) = records w" for l
    by (simp add: basicConfig_def)
  show ?thesis
    by (auto simp: pdf_to_word_with_toc_def Let_def logging_info_def logging_error_def b
        split: sum.splits prod.splits dest!: for_pages_result(2))
qed

lemma fresh_process_emits_every_record:
  assumes "\<not> root_handlers w" and "records w = []"
  shows "emitted (snd (pdf_to_word_with_toc env pdf_path output_path dpi lang verbose w)) =
           records (snd (pdf_to_word_with_toc env pdf_path output_path dpi lang verbose w))"
proof -
  let ?w' = "snd (pdf_to_word_with_toc env pdf_path output_path dpi lang verbose w)"
  from convert_records [of env pdf_path output_path dpi lang verbose w] assms(2)
  have "\<forall>x \<in> set (records ?w'). fst x = INFO \<or> fst x = ERROR"
    by auto
  moreover have "root_level ?w' \<le> INFO"
    using assms(1) by (simp add: convert_root_level basicConfig_def DEBUG_def INFO_def)
  ultimately have "\<forall>x \<in> set (records ?w'). root_level ?w' \<le> fst x"
    by (auto simp: INFO_def ERROR_def)
  then show ?thesis
    by (simp add: emitted_def)
qed

subsection \<open>The loop over the inputs\<close>




subsection \<open>The sections of the pages\<close>








subsection \<open>The synthetic environment\<close>




















subsection \<open>The claims\<close>




















text \<open>
  Claim C10. For the same environment, arguments and world, the runs with
  \<open>verbose = True\<close> and \<open>verbose = False\<close> return the same result and leave the same files
  (so the same documents) and the same records: the worlds they leave differ at most in
  the level of the root logger.
\<close>

theorem verbose_selects_only_the_level:
  "fst (pdf_to_word_with_toc env pdf_path output_path dpi lang True w) =
     fst (pdf_to_word_with_toc env pdf_path output_path dpi lang False w) \<and>
   files (snd (pdf_to_word_with_toc env pdf_path output_path dpi lang True w)) =
     files (snd (pdf_to_word_with_toc env pdf_path output_path dpi lang False w)) \<and>
   records (snd (pdf_to_word_with_toc env pdf_path output_path dpi lang True w)) =
     records (snd (pdf_to_word_with_toc env pdf_path output_path dpi lang False w)) \<and>
   snd (pdf_to_word_with_toc env pdf_path output_path dpi lang True w) =
     (snd (pdf_to_word_with_toc env pdf_path output_path dpi lang False w))
       \<lparr>root_level := root_level
          (snd (pdf_to_word_with_toc env pdf_path output_path dpi lang True w))\<rparr>"
proof (cases "root_handlers w")
  case True
  then show ?thesis
    by (simp add: convert_configured)
next
  case False
  let ?wF = "basicConfig INFO w"
  have h: "root_handlers ?wF"
    by (simp add: basicConfig_def)
  have "basicConfig DEBUG w = ?wF\<lparr>root_level := DEBUG\<rparr>"
    using False by (simp add: basicConfig_def)
  then have "pdf_to_word_with_toc env pdf_path output_path dpi lang True w =
     pdf_to_word_with_toc env pdf_path output_path dpi lang True (?wF\<lparr>root_level := DEBUG\<rparr>)"
    using convert_idem [of env pdf_path output_path dpi lang True w] by simp
  also have "\<dots> =
     (fst (pdf_to_word_with_toc env pdf_path output_path dpi lang True ?wF),
      (snd (pdf_to_word_with_toc env pdf_path output_path dpi lang True ?wF))
        \<lparr>root_level := DEBUG\<rparr>)"
    by (rule convert_level [OF h])
  also have "pdf_to_word_with_toc env pdf_path output_path dpi lang True ?wF =
     pdf_to_word_with_toc env pdf_path output_path dpi lang False ?wF"
    by (rule convert_configured [OF h])
  also have "pdf_to_word_with_toc env pdf_path output_path dpi lang False ?wF =
     pdf_to_word_with_toc env pdf_path output_path dpi lang False w"
    using convert_idem [of env pdf_path output_path dpi lang False w] by simp
  finally show ?thesis
    by simp
qed

end
